theory Spec2Isabelle
  imports Main
begin

section \<open>Python values used by automate.py\<close>

text \<open>
  A Python \<open>str\<close> is a sequence of Unicode code points, and slicing (\<open>s[:200]\<close>) counts
  code points. The emoji literals of the source file are stored there as code points above
  255, so a string is a list of code points, not of bytes.
\<close>

type_synonym str = "nat list"

definition lit :: "string \<Rightarrow> str" where
  \<comment> \<open>an ASCII literal of the source\<close>
  "lit s = map of_char s"

fun str_nat :: "nat \<Rightarrow> str" where
  \<comment> \<open>\<open>str(n)\<close> of a non-negative int: its decimal digits\<close>
  "str_nat n = (if n < 10 then [48 + n] else str_nat (n div 10) @ [48 + n mod 10])"

declare str_nat.simps [simp del]

definition str_int :: "int \<Rightarrow> str" where
  \<comment> \<open>\<open>str(i)\<close> of an int\<close>
  "str_int i = (if i < 0 then 45 # str_nat (nat (- i)) else str_nat (nat i))"

fun join_str :: "str \<Rightarrow> str list \<Rightarrow> str" where
  \<comment> \<open>\<open>sep.join(parts)\<close>\<close>
  "join_str sep [] = []"
| "join_str sep [p] = p"
| "join_str sep (p # q # ps) = p @ sep @ join_str sep (q # ps)"

definition replace_Z :: "str \<Rightarrow> str" where
  \<comment> \<open>\<open>s.replace('Z', '+00:00')\<close>: every occurrence of the one-character pattern\<close>
  "replace_Z s = concat (map (\<lambda>c. if c = 90 then lit ''+00:00'' else [c]) s)"

definition fmt_opt :: "str option \<Rightarrow> str" where
  \<comment> \<open>a value that is a str or None, inside an f-string\<close>
  "fmt_opt v = (case v of None \<Rightarrow> lit ''None'' | Some s \<Rightarrow> s)"

text \<open>What \<open>json.loads\<close> returns. A JSON object becomes a dict, given by its items.\<close>

datatype json =
    JNull
  | JBool bool
  | JInt int
  | JFloat str
  | JStr str
  | JArr "json list"
  | JObj "(str \<times> json) list"

definition dict_get :: "(str \<times> 'v) list \<Rightarrow> str \<Rightarrow> 'v \<Rightarrow> 'v" where
  \<comment> \<open>\<open>d.get(key, default)\<close>\<close>
  "dict_get d k dflt = (case map_of d k of None \<Rightarrow> dflt | Some v \<Rightarrow> v)"

text \<open>
  Exceptions, each with the text \<open>str(e)\<close>. Every class here derives from \<open>Exception\<close>;
  \<open>SlackApiError\<close> is the only one \<open>NotificationAgent.execute\<close> names.
\<close>

datatype exn =
    SlackApiError str
  | JSONDecodeError str
  | KeyError str
  | AttributeError str
  | TypeError str
  | ValueError str
  | OverflowError str
  | ProviderError str

fun exn_str :: "exn \<Rightarrow> str" where
  "exn_str (SlackApiError s) = s"
| "exn_str (JSONDecodeError s) = s"
| "exn_str (KeyError s) = s"
| "exn_str (AttributeError s) = s"
| "exn_str (TypeError s) = s"
| "exn_str (ValueError s) = s"
| "exn_str (OverflowError s) = s"
| "exn_str (ProviderError s) = s"

fun is_SlackApiError :: "exn \<Rightarrow> bool" where
  "is_SlackApiError (SlackApiError s) = True"
| "is_SlackApiError e = False"

fun is_JSONDecodeError :: "exn \<Rightarrow> bool" where
  "is_JSONDecodeError (JSONDecodeError s) = True"
| "is_JSONDecodeError e = False"

section \<open>Data model\<close>

record EmailSummary =
  sender :: str
  subject :: str
  summary :: json
  priority :: json
  action_required :: json
  meeting_info :: json

text \<open>The dict that \<open>CalendarAgent._analyze_meeting\<close> builds (the spec's MeetingRecord).\<close>

record MeetingRecord =
  id' :: str
  title :: str
  start_time :: "str option"
  attendees :: "str list"
  description :: str
  analysis :: str
  meet_link :: "str option"

section \<open>Effects\<close>

text \<open>
  The observable effects of a run: the records written to the loggers, the calls made to
  the chat provider and to the document store, and how often the clock was read.
\<close>

datatype level = INFO | ERROR

record slack_call =
  sc_channel :: str
  sc_text :: str
  sc_username :: str

datatype docs_call = DocCreate str | DocBatchUpdate "str option" str

record world =
  logs :: "(level \<times> str) list"
  slack_calls :: "slack_call list"
  docs_calls :: "docs_call list"
  ticks :: nat

definition log_info :: "str \<Rightarrow> world \<Rightarrow> world" where
  "log_info m w = w\<lparr>logs := logs w @ [(INFO, m)]\<rparr>"

definition log_error :: "str \<Rightarrow> world \<Rightarrow> world" where
  "log_error m w = w\<lparr>logs := logs w @ [(ERROR, m)]\<rparr>"

section \<open>NotificationAgent\<close>

text \<open>
  The chat provider: \<open>chat_postMessage\<close> answers a call, knowing the calls made before it,
  with the \<open>ts\<close> entry of its response or with an exception.
\<close>

type_synonym slack_client = "slack_call list \<Rightarrow> slack_call \<Rightarrow> exn + str option"

definition URGENT_PREFIX :: str where
  "URGENT_PREFIX = [0xF8FF, 0xFC, 0xF6, 0xAE] @ lit '' URGENT: ''"

definition notification_call :: "str \<Rightarrow> str option \<Rightarrow> bool \<Rightarrow> slack_call" where
  \<comment> \<open>the keyword arguments of \<open>chat_postMessage\<close>\<close>
  "notification_call message channel urgent =
     \<lparr>sc_channel = (case channel of None \<Rightarrow> lit ''#general''
                    | Some c \<Rightarrow> if c = [] then lit ''#general'' else c),
      sc_text = (if urgent then URGENT_PREFIX @ message else message),
      sc_username = lit ''AI Assistant''\<rparr>"

definition NotificationAgent_execute ::
  "slack_client \<Rightarrow> world \<Rightarrow> str \<Rightarrow> str option \<Rightarrow> bool \<Rightarrow> (exn + unit) \<times> world" where
  "NotificationAgent_execute slack w message channel urgent =
     (let call = notification_call message channel urgent;
          w1 = w\<lparr>slack_calls := slack_calls w @ [call]\<rparr>
      in case slack (slack_calls w) call of
           Inr ts \<Rightarrow> (Inr (), log_info (lit ''Notification sent to Slack: '' @ fmt_opt ts) w1)
         | Inl e \<Rightarrow>
             if is_SlackApiError e
             then (Inr (), log_error (lit ''Slack notification failed: '' @ exn_str e) w1)
             else (Inl e, w1))"

section \<open>Digest construction\<close>

definition DIGEST_HEADER :: str where
  "DIGEST_HEADER = [0xF8FF, 0xFC, 0xEC, 0xE3] @ lit '' Daily Summary'' @ [10]"

definition EMAILS_LABEL :: str where
  "EMAILS_LABEL = [0xF8FF, 0xFC, 0xEC, 0xDF] @ lit '' Emails processed: ''"

definition HIGH_LABEL :: str where
  "HIGH_LABEL = [0x201A, 0xF6, 0x2020, 0xD4, 0x220F, 0xE8] @ lit '' High priority emails: ''"

definition MEETINGS_LABEL :: str where
  "MEETINGS_LABEL = [0xF8FF, 0xFC, 0xEC, 0xD6] @ lit '' Upcoming meetings: ''"

definition BULLET :: str where
  "BULLET = [0x201A, 0xC4, 0xA2]"

definition meeting_line :: "MeetingRecord \<Rightarrow> str" where
  "meeting_line m = BULLET @ lit '' '' @ title m @ lit '' - '' @ fmt_opt (start_time m)"

definition summary_parts :: "EmailSummary list \<Rightarrow> MeetingRecord list \<Rightarrow> str list" where
  "summary_parts emails meetings =
     (let parts0 = [DIGEST_HEADER];
          parts1 =
            (if emails \<noteq> [] then
               (let p = parts0 @ [EMAILS_LABEL @ str_nat (length emails)];
                    high_priority = filter (\<lambda>e. priority e = JStr (lit ''High'')) emails
                in if high_priority \<noteq> []
                   then p @ [HIGH_LABEL @ str_nat (length high_priority)] else p)
             else parts0);
          parts2 =
            (if meetings \<noteq> [] then
               parts1 @ [MEETINGS_LABEL @ str_nat (length meetings)]
                 @ map meeting_line (take 3 meetings)
             else parts1)
      in parts2)"

definition summary_message :: "EmailSummary list \<Rightarrow> MeetingRecord list \<Rightarrow> str" where
  "summary_message emails meetings = join_str [10] (summary_parts emails meetings)"

definition send_daily_summary ::
  "slack_client \<Rightarrow> world \<Rightarrow> EmailSummary list \<Rightarrow> MeetingRecord list \<Rightarrow> (exn + unit) \<times> world" where
  "send_daily_summary slack w emails meetings =
     NotificationAgent_execute slack w (summary_message emails meetings) None False"

section \<open>Library functions and the clock\<close>

text \<open>
  A \<open>datetime\<close>: its wall-clock reading in microseconds since 0001-01-01 00:00:00, and its \<open>tzinfo\<close> (None for a
  naive value, otherwise the UTC offset in microseconds). A \<open>timedelta\<close> is a number of
  microseconds.
\<close>

record datetime =
  wall :: int
  tzinfo :: "int option"

definition dt_sub :: "datetime \<Rightarrow> datetime \<Rightarrow> exn + int" where
  \<comment> \<open>\<open>a - b\<close>: the readings are compared as they stand when both are naive or both carry
      the same tzinfo, in UTC when both are aware; a naive and an aware value do not mix\<close>
  "dt_sub a b =
     (case (tzinfo a, tzinfo b) of
        (None, None) \<Rightarrow> Inr (wall a - wall b)
      | (Some x, Some y) \<Rightarrow> Inr ((wall a - x) - (wall b - y))
      | (None, Some y) \<Rightarrow> Inl (TypeError (lit ''can't subtract offset-naive and offset-aware datetimes''))
      | (Some x, None) \<Rightarrow> Inl (TypeError (lit ''can't subtract offset-naive and offset-aware datetimes'')))"

definition timestamp_utc :: "datetime \<Rightarrow> int option" where
  \<comment> \<open>the instant an aware datetime denotes, as a UTC reading; a naive one denotes none\<close>
  "timestamp_utc d = (case tzinfo d of None \<Rightarrow> None | Some off \<Rightarrow> Some (wall d - off))"

definition minutes :: "int \<Rightarrow> int" where
  \<comment> \<open>\<open>timedelta(minutes=n)\<close>\<close>
  "minutes n = n * 60000000"




definition whole_minutes :: "int \<Rightarrow> int" where
  \<comment> \<open>\<open>int(td.total_seconds() // 60)\<close>. The source divides floats; for a timedelta of at most
      30 minutes the quotient of the microsecond count by \<open>10^6\<close> is rounded to a double that
      lies in the same whole minute, and the float floor division by 60 is exact there.\<close>
  "whole_minutes td = td div 60000000"

text \<open>
  What the code takes from the Python library and from the system clock. The \<open>n\<close>-th
  reading of \<open>datetime.now()\<close> is \<open>local_now n\<close>, of \<open>datetime.utcnow()\<close> is
  \<open>utc_now n\<close>; \<open>ticks\<close> counts the readings.
\<close>

record pylib =
  json_loads :: "str \<Rightarrow> exn + json"
  urlsafe_b64decode_utf8 :: "str \<Rightarrow> exn + str"
  fromisoformat :: "str \<Rightarrow> exn + datetime"
  isoformat :: "int \<Rightarrow> str"
  strftime :: "str \<Rightarrow> int \<Rightarrow> str"
  fmt_json :: "json \<Rightarrow> str"
  local_now :: "nat \<Rightarrow> int"
  utc_now :: "nat \<Rightarrow> int"

section \<open>Reminder scheduler\<close>

definition BELL :: str where
  "BELL = [0xF8FF, 0xFC, 0xEE, 0xEE]"

definition reminder_msg :: "MeetingRecord \<Rightarrow> int \<Rightarrow> str" where
  "reminder_msg m delta =
     (let msg = BELL @ lit '' Reminder: '' @ [39] @ title m @ [39] @ lit '' starts in ''
                  @ str_int (whole_minutes delta) @ lit '' minutes''
      in case meet_link m of
           None \<Rightarrow> msg
         | Some link \<Rightarrow> if link = [] then msg else msg @ [10] @ lit ''Join: '' @ link)"

definition NONE_REPLACE :: str where
  \<comment> \<open>the text of the AttributeError of \<open>None.replace\<close>\<close>
  "NONE_REPLACE = [39] @ lit ''NoneType'' @ [39] @ lit '' object has no attribute ''
                    @ [39] @ lit ''replace'' @ [39]"

definition reminder_failed :: "MeetingRecord \<Rightarrow> exn \<Rightarrow> world \<Rightarrow> world" where
  \<comment> \<open>the \<open>except Exception\<close> branch of the loop body\<close>
  "reminder_failed m e w =
     log_error (lit ''Failed to schedule reminder for '' @ title m @ lit '': '' @ exn_str e) w"

definition remind_meeting :: "pylib \<Rightarrow> slack_client \<Rightarrow> world \<Rightarrow> MeetingRecord \<Rightarrow> world" where
  \<comment> \<open>one iteration of the loop of \<open>_schedule_meeting_reminders\<close>\<close>
  "remind_meeting lib slack w m =
     (case start_time m of
        None \<Rightarrow> reminder_failed m (AttributeError NONE_REPLACE) w
      | Some s \<Rightarrow>
          (case fromisoformat lib (replace_Z s) of
             Inl e \<Rightarrow> reminder_failed m e w
           | Inr start \<Rightarrow>
               (let now = \<lparr>wall = local_now lib (ticks w), tzinfo = tzinfo start\<rparr>;
                    w1 = w\<lparr>ticks := Suc (ticks w)\<rparr>
                in case dt_sub start now of
                     Inl e \<Rightarrow> reminder_failed m e w1
                   | Inr delta \<Rightarrow>
                       if minutes 15 \<le> delta \<and> delta \<le> minutes 30
                       then (case NotificationAgent_execute slack w1 (reminder_msg m delta) None True of
                               (Inr u, w2) \<Rightarrow> w2
                             | (Inl e, w2) \<Rightarrow> reminder_failed m e w2)
                       else w1)))"

definition schedule_meeting_reminders ::
  "pylib \<Rightarrow> slack_client \<Rightarrow> world \<Rightarrow> MeetingRecord list \<Rightarrow> world" where
  \<comment> \<open>every exception is caught inside the loop body, so the call always returns\<close>
  "schedule_meeting_reminders lib slack w meetings = foldl (remind_meeting lib slack) w meetings"

section \<open>BaseAgent: the language-model gateway\<close>

text \<open>
  \<open>chat_completion\<close> of the text-generation provider, as a function of the system message
  and the user message: the content of the completion, or an exception.
\<close>

type_synonym llama_client = "str \<Rightarrow> str \<Rightarrow> exn + str"

definition get_llm_response :: "llama_client \<Rightarrow> world \<Rightarrow> str \<Rightarrow> str \<Rightarrow> str \<times> world" where
  "get_llm_response llama w prompt system_prompt =
     (case llama system_prompt prompt of
        Inr content \<Rightarrow> (content, w)
      | Inl e \<Rightarrow> ([], log_error (lit ''LLM request failed: '' @ exn_str e) w))"

definition bind_exn :: "exn + 'a \<Rightarrow> ('a \<Rightarrow> exn + 'b) \<Rightarrow> exn + 'b" where
  \<comment> \<open>sequencing inside a \<open>try\<close> block: the first exception ends the block\<close>
  "bind_exn x f = (case x of Inl e \<Rightarrow> Inl e | Inr a \<Rightarrow> f a)"

definition key_error :: "string \<Rightarrow> exn" where
  \<comment> \<open>\<open>d[k]\<close> on a dict without the key \<open>k\<close>\<close>
  "key_error k = KeyError ([39] @ lit k @ [39])"

definition subscript :: "string \<Rightarrow> 'a option \<Rightarrow> exn + 'a" where
  \<comment> \<open>\<open>d[k]\<close>, where the entry of \<open>d\<close> at \<open>k\<close> is given as an option\<close>
  "subscript k v = (case v of None \<Rightarrow> Inl (key_error k) | Some x \<Rightarrow> Inr x)"

definition get_default :: "'a option \<Rightarrow> 'a \<Rightarrow> 'a" where
  \<comment> \<open>\<open>d.get(k, default)\<close>, where the entry of \<open>d\<close> at \<open>k\<close> is given as an option\<close>
  "get_default v dflt = (case v of None \<Rightarrow> dflt | Some x \<Rightarrow> x)"

fun py_type_name :: "json \<Rightarrow> string" where
  "py_type_name JNull = ''NoneType''"
| "py_type_name (JBool b) = ''bool''"
| "py_type_name (JInt i) = ''int''"
| "py_type_name (JFloat f) = ''float''"
| "py_type_name (JStr s) = ''str''"
| "py_type_name (JArr xs) = ''list''"
| "py_type_name (JObj d) = ''dict''"

definition no_attribute :: "json \<Rightarrow> string \<Rightarrow> exn" where
  "no_attribute j a =
     AttributeError ([39] @ lit (py_type_name j) @ [39] @ lit '' object has no attribute ''
                       @ [39] @ lit a @ [39])"

definition as_dict :: "json \<Rightarrow> exn + (str \<times> json) list" where
  \<comment> \<open>the receiver of \<open>.get\<close>: only a dict has the method\<close>
  "as_dict j = (case j of JObj d \<Rightarrow> Inr d | _ \<Rightarrow> Inl (no_attribute j ''get''))"

section \<open>EmailAgent\<close>

record header =
  h_name :: "str option"
  h_value :: "str option"

record part =
  part_mimeType :: "str option"
  part_body :: "str option option"

record payload =
  headers :: "header list option"
  parts :: "part list option"
  payload_mimeType :: "str option"
  payload_body :: "str option option"

record gmail_message =
  msg_payload :: "payload option"

text \<open>
  The mail provider: \<open>messages().list(...).execute()\<close> answers with the dicts under the
  key \<open>messages\<close> (the key is absent when nothing matches), each given by its \<open>id\<close>
  entry, or with an exception; \<open>messages().get(...).execute()\<close> with a message or an
  exception.
\<close>

record message_ref =
  ref_id :: "str option"

record gmail_service =
  messages_list :: "int \<Rightarrow> exn + message_ref list option"
  messages_get :: "str \<Rightarrow> exn + gmail_message"

fun find_header :: "str \<Rightarrow> header list \<Rightarrow> exn + str" where
  \<comment> \<open>\<open>next((h['value'] for h in headers if h['name'] == key), '')\<close>\<close>
  "find_header k [] = Inr []"
| "find_header k (h # hs) =
     (case h_name h of
        None \<Rightarrow> Inl (key_error ''name'')
      | Some n \<Rightarrow> if n = k then subscript ''value'' (h_value h) else find_header k hs)"

definition body_data :: "pylib \<Rightarrow> str option option \<Rightarrow> exn + str" where
  \<comment> \<open>\<open>self._decode_base64(x['body']['data'])\<close>\<close>
  "body_data lib b =
     bind_exn (subscript ''body'' b) (\<lambda>bd.
     bind_exn (subscript ''data'' bd) (\<lambda>d.
     urlsafe_b64decode_utf8 lib d))"

fun first_plain_part :: "pylib \<Rightarrow> part list \<Rightarrow> exn + str" where
  \<comment> \<open>the loop over \<open>payload['parts']\<close>, left at the first \<open>text/plain\<close> part\<close>
  "first_plain_part lib [] = Inr []"
| "first_plain_part lib (p # ps) =
     (case part_mimeType p of
        None \<Rightarrow> Inl (key_error ''mimeType'')
      | Some mt \<Rightarrow> if mt = lit ''text/plain'' then body_data lib (part_body p)
                  else first_plain_part lib ps)"

definition extract_email_body :: "pylib \<Rightarrow> payload \<Rightarrow> exn + str" where
  "extract_email_body lib pl =
     (case parts pl of
        Some ps \<Rightarrow> first_plain_part lib ps
      | None \<Rightarrow>
          bind_exn (subscript ''mimeType'' (payload_mimeType pl)) (\<lambda>mt.
            if mt = lit ''text/plain'' then body_data lib (payload_body pl) else Inr []))"

definition summary_prompt :: "str \<Rightarrow> str \<Rightarrow> str \<Rightarrow> str" where
  "summary_prompt subj sndr body =
     [10] @ lit ''            Subject: '' @ subj
     @ [10] @ lit ''            From: '' @ sndr
     @ [10] @ lit ''            Content: '' @ take 2000 body
     @ lit ''  # Truncate for token limits'' @ [10] @ lit ''            '' @ [10]
     @ lit ''            Please provide a concise summary and analysis.'' @ [10]
     @ lit ''            ''"

definition EMAIL_SYSTEM_PROMPT :: str where
  "EMAIL_SYSTEM_PROMPT =
     [10] @ lit ''            You are an email analysis assistant. For each email, provide:''
     @ [10] @ lit ''            1. A brief summary (2-3 sentences)''
     @ [10] @ lit ''            2. Priority level (High/Medium/Low)''
     @ [10] @ lit ''            3. Whether action is required (Yes/No)''
     @ [10] @ lit ''            4. If it mentions meetings, extract meeting details''
     @ [10] @ lit ''            '' @ [10]
     @ lit ''            Format as JSON with keys: summary, priority, action_required, meeting_info''
     @ [10] @ lit ''            ''"

definition fetch_email :: "pylib \<Rightarrow> gmail_service \<Rightarrow> str \<Rightarrow> exn + (str \<times> str \<times> str)" where
  \<comment> \<open>the first statements of the \<open>try\<close> block of \<open>_process_email\<close>: subject, sender, body\<close>
  "fetch_email lib gm message_id =
     bind_exn (messages_get gm message_id) (\<lambda>message.
     bind_exn (subscript ''payload'' (msg_payload message)) (\<lambda>pl.
     bind_exn (find_header (lit ''Subject'') (get_default (headers pl) [])) (\<lambda>subj.
     bind_exn (find_header (lit ''From'') (get_default (headers pl) [])) (\<lambda>sndr.
     bind_exn (extract_email_body lib pl) (\<lambda>body.
     Inr (subj, sndr, body))))))"

definition parsed_summary :: "str \<Rightarrow> str \<Rightarrow> (str \<times> json) list \<Rightarrow> EmailSummary" where
  \<comment> \<open>the record built from the parsed analysis\<close>
  "parsed_summary sndr subj d =
     \<lparr>sender = sndr, subject = subj,
      summary = dict_get d (lit ''summary'') (JStr []),
      priority = dict_get d (lit ''priority'') (JStr (lit ''Low'')),
      action_required = dict_get d (lit ''action_required'') (JBool False),
      meeting_info = dict_get d (lit ''meeting_info'') JNull\<rparr>"

definition fallback_summary :: "str \<Rightarrow> str \<Rightarrow> str \<Rightarrow> EmailSummary" where
  \<comment> \<open>the record built in the \<open>except json.JSONDecodeError\<close> branch\<close>
  "fallback_summary sndr subj response =
     \<lparr>sender = sndr, subject = subj,
      summary = JStr (take 200 response),
      priority = JStr (lit ''Medium''),
      action_required = JBool True,
      meeting_info = JNull\<rparr>"

definition summarize_response :: "pylib \<Rightarrow> str \<Rightarrow> str \<Rightarrow> str \<Rightarrow> exn + EmailSummary" where
  \<comment> \<open>the inner \<open>try\<close> of \<open>_process_email\<close>; what it returns \<open>Inl\<close> reaches the outer handler\<close>
  "summarize_response lib sndr subj response =
     (case json_loads lib response of
        Inr j \<Rightarrow> bind_exn (as_dict j) (\<lambda>d. Inr (parsed_summary sndr subj d))
      | Inl e \<Rightarrow> if is_JSONDecodeError e then Inr (fallback_summary sndr subj response)
                 else Inl e)"

definition process_email ::
  "pylib \<Rightarrow> llama_client \<Rightarrow> gmail_service \<Rightarrow> world \<Rightarrow> str \<Rightarrow> EmailSummary option \<times> world" where
  "process_email lib llama gm w message_id =
     (case fetch_email lib gm message_id of
        Inl e \<Rightarrow>
          (None, log_error (lit ''Email processing failed for '' @ message_id @ lit '': ''
                              @ exn_str e) w)
      | Inr (subj, sndr, body) \<Rightarrow>
          (case get_llm_response llama w (summary_prompt subj sndr body) EMAIL_SYSTEM_PROMPT of
             (response, w1) \<Rightarrow>
               (case summarize_response lib sndr subj response of
                  Inl e \<Rightarrow>
                    (None, log_error (lit ''Email processing failed for '' @ message_id
                                        @ lit '': '' @ exn_str e) w1)
                | Inr r \<Rightarrow> (Some r, w1))))"

fun process_emails ::
  "pylib \<Rightarrow> llama_client \<Rightarrow> gmail_service \<Rightarrow> world \<Rightarrow> EmailSummary list \<Rightarrow> message_ref list
     \<Rightarrow> (exn + EmailSummary list) \<times> world" where
  \<comment> \<open>the loop of \<open>EmailAgent.execute\<close> over \<open>messages\<close>, with \<open>summaries\<close> as it stands;
      \<open>message['id']\<close> is evaluated in the loop, outside the \<open>try\<close> of \<open>_process_email\<close>\<close>
  "process_emails lib llama gm w summaries [] = (Inr summaries, w)"
| "process_emails lib llama gm w summaries (message # messages) =
     (case subscript ''id'' (ref_id message) of
        Inl e \<Rightarrow> (Inl e, w)
      | Inr message_id \<Rightarrow>
          (case process_email lib llama gm w message_id of
             (email_summary, w1) \<Rightarrow>
               process_emails lib llama gm w1
                 (case email_summary of None \<Rightarrow> summaries | Some x \<Rightarrow> summaries @ [x])
                 messages))"

definition EmailAgent_execute ::
  "pylib \<Rightarrow> llama_client \<Rightarrow> gmail_service \<Rightarrow> world \<Rightarrow> int \<Rightarrow> EmailSummary list \<times> world" where
  "EmailAgent_execute lib llama gm w max_emails =
     (case messages_list gm max_emails of
        Inl e \<Rightarrow> ([], log_error (lit ''Email processing failed: '' @ exn_str e) w)
      | Inr results \<Rightarrow>
          (case process_emails lib llama gm w [] (get_default results []) of
             (Inl e, w1) \<Rightarrow> ([], log_error (lit ''Email processing failed: '' @ exn_str e) w1)
           | (Inr summaries, w1) \<Rightarrow> (summaries, w1)))"

section \<open>CalendarAgent\<close>














section \<open>MeetingNotesAgent\<close>

record MeetingNote =
  meeting_id :: str
  note_title :: str
  note_date :: int
  participants :: "str list"
  note_summary :: json
  action_items :: json
  key_decisions :: json

text \<open>The \<open>meeting_info\<close> dict passed to the agent, by the entries the code reads.\<close>

record notes_meeting_info =
  mi_id :: "str option"
  mi_title :: "str option"
  mi_attendees :: "str list option"

text \<open>
  The document store: \<open>documents().create(...).execute()\<close> answers with the
  \<open>documentId\<close> entry of the new document, \<open>documents().batchUpdate(...).execute()\<close> with
  nothing; either may raise.
\<close>

record docs_service =
  documents_create :: "str \<Rightarrow> exn + str option"
  documents_batchUpdate :: "str option \<Rightarrow> str \<Rightarrow> exn + unit"

definition notes_prompt :: "str \<Rightarrow> str \<Rightarrow> str" where
  "notes_prompt ttl transcript =
     [10] @ lit ''            Meeting: '' @ ttl
     @ [10] @ lit ''            Transcript: '' @ transcript
     @ [10] @ lit ''            '' @ [10]
     @ lit ''            Please analyze this meeting and provide structured notes.'' @ [10]
     @ lit ''            ''"

definition NOTES_SYSTEM_PROMPT :: str where
  "NOTES_SYSTEM_PROMPT =
     [10] @ lit ''            Create structured meeting notes in JSON format with:''
     @ [10] @ lit ''            - summary: Brief overview of the meeting''
     @ [10] @ lit ''            - key_decisions: List of decisions made''
     @ [10] @ lit ''            - action_items: List of action items with owners if mentioned''
     @ [10] @ lit ''            - important_topics: Main topics discussed''
     @ [10] @ lit ''            - next_steps: What happens next''
     @ [10] @ lit ''            ''"

definition py_iter :: "json \<Rightarrow> exn + json list" where
  \<comment> \<open>the items a \<open>for\<close> loop takes from a value\<close>
  "py_iter j =
     (case j of
        JArr xs \<Rightarrow> Inr xs
      | JStr s \<Rightarrow> Inr (map (\<lambda>c. JStr [c]) s)
      | JObj d \<Rightarrow> Inr (map (\<lambda>kv. JStr (fst kv)) d)
      | _ \<Rightarrow> Inl (TypeError ([39] @ lit (py_type_name j) @ [39] @ lit '' object is not iterable'')))"

definition bullets :: "pylib \<Rightarrow> json \<Rightarrow> exn + str" where
  \<comment> \<open>\<open>chr(10).join(f"<bullet> {x}" for x in j)\<close>\<close>
  "bullets lib j =
     bind_exn (py_iter j) (\<lambda>xs. Inr (join_str [10] (map (\<lambda>x. BULLET @ lit '' '' @ fmt_json lib x) xs)))"

definition doc_content :: "pylib \<Rightarrow> MeetingNote \<Rightarrow> (str \<times> json) list \<Rightarrow> exn + str" where
  "doc_content lib n notes_data =
     bind_exn (bullets lib (key_decisions n)) (\<lambda>decisions.
     bind_exn (bullets lib (action_items n)) (\<lambda>items.
     bind_exn (bullets lib (dict_get notes_data (lit ''important_topics'') (JArr []))) (\<lambda>topics.
     bind_exn (bullets lib (dict_get notes_data (lit ''next_steps'') (JArr []))) (\<lambda>steps.
     Inr ([10] @ lit ''MEETING NOTES'' @ [10, 10] @ lit ''Meeting: '' @ note_title n
          @ [10] @ lit ''Date: '' @ strftime lib (lit ''%Y-%m-%d %H:%M'') (note_date n)
          @ [10] @ lit ''Participants: '' @ join_str (lit '', '') (participants n)
          @ [10, 10] @ lit ''SUMMARY'' @ [10] @ fmt_json lib (note_summary n)
          @ [10, 10] @ lit ''KEY DECISIONS'' @ [10] @ decisions
          @ [10, 10] @ lit ''ACTION ITEMS'' @ [10] @ items
          @ [10, 10] @ lit ''IMPORTANT TOPICS'' @ [10] @ topics
          @ [10, 10] @ lit ''NEXT STEPS'' @ [10] @ steps
          @ [10] @ lit ''            '')))))"

definition save_to_docs ::
  "pylib \<Rightarrow> docs_service \<Rightarrow> world \<Rightarrow> MeetingNote \<Rightarrow> (str \<times> json) list \<Rightarrow> world" where
  \<comment> \<open>the whole body is one \<open>try\<close> with \<open>except Exception\<close>: the call always returns\<close>
  "save_to_docs lib docs w n notes_data =
     (let doc_title = lit ''Meeting Notes - '' @ note_title n @ lit '' - ''
                        @ strftime lib (lit ''%Y-%m-%d'') (note_date n);
          w1 = w\<lparr>docs_calls := docs_calls w @ [DocCreate doc_title]\<rparr>
      in case documents_create docs doc_title of
           Inl e \<Rightarrow> log_error (lit ''Failed to save to Google Docs: '' @ exn_str e) w1
         | Inr doc_id \<Rightarrow>
             (case doc_content lib n notes_data of
                Inl e \<Rightarrow> log_error (lit ''Failed to save to Google Docs: '' @ exn_str e) w1
              | Inr content \<Rightarrow>
                  (let w2 = w1\<lparr>docs_calls := docs_calls w1 @ [DocBatchUpdate doc_id content]\<rparr>
                   in case documents_batchUpdate docs doc_id content of
                        Inl e \<Rightarrow> log_error (lit ''Failed to save to Google Docs: '' @ exn_str e) w2
                      | Inr u \<Rightarrow>
                          log_info (lit ''Meeting notes saved to Google Docs: '' @ fmt_opt doc_id) w2)))"

definition fallback_notes :: "str \<Rightarrow> (str \<times> json) list" where
  \<comment> \<open>the dict built in the \<open>except json.JSONDecodeError\<close> branch\<close>
  "fallback_notes analysis_text =
     [(lit ''summary'', JStr (take 500 analysis_text)),
      (lit ''key_decisions'', JArr []),
      (lit ''action_items'', JArr []),
      (lit ''important_topics'', JArr []),
      (lit ''next_steps'', JArr [])]"

definition load_notes :: "pylib \<Rightarrow> str \<Rightarrow> exn + json" where
  \<comment> \<open>the inner \<open>try\<close> of \<open>MeetingNotesAgent.execute\<close>: the value of \<open>notes_data\<close>\<close>
  "load_notes lib analysis_text =
     (case json_loads lib analysis_text of
        Inr j \<Rightarrow> Inr j
      | Inl e \<Rightarrow> if is_JSONDecodeError e then Inr (JObj (fallback_notes analysis_text)) else Inl e)"

definition make_note :: "notes_meeting_info \<Rightarrow> int \<Rightarrow> (str \<times> json) list \<Rightarrow> MeetingNote" where
  "make_note info now notes_data =
     \<lparr>meeting_id = get_default (mi_id info) [],
      note_title = get_default (mi_title info) [],
      note_date = now,
      participants = get_default (mi_attendees info) [],
      note_summary = dict_get notes_data (lit ''summary'') (JStr []),
      action_items = dict_get notes_data (lit ''action_items'') (JArr []),
      key_decisions = dict_get notes_data (lit ''key_decisions'') (JArr [])\<rparr>"

definition MeetingNotesAgent_execute ::
  "pylib \<Rightarrow> llama_client \<Rightarrow> docs_service \<Rightarrow> world \<Rightarrow> str \<Rightarrow> notes_meeting_info
     \<Rightarrow> MeetingNote option \<times> world" where
  \<comment> \<open>\<open>datetime.now()\<close> is read while the arguments of \<open>MeetingNote(...)\<close> are evaluated,
      before the first \<open>notes_data.get\<close>\<close>
  "MeetingNotesAgent_execute lib llama docs w meeting_transcript info =
     (case get_llm_response llama w
             (notes_prompt (get_default (mi_title info) (lit ''Unknown Meeting'')) meeting_transcript)
             NOTES_SYSTEM_PROMPT of
        (analysis_text, w1) \<Rightarrow>
          (case load_notes lib analysis_text of
             Inl e \<Rightarrow> (None, log_error (lit ''Meeting notes processing failed: '' @ exn_str e) w1)
           | Inr j \<Rightarrow>
               (let now = local_now lib (ticks w1);
                    w2 = w1\<lparr>ticks := Suc (ticks w1)\<rparr>
                in case as_dict j of
                     Inl e \<Rightarrow>
                       (None, log_error (lit ''Meeting notes processing failed: '' @ exn_str e) w2)
                   | Inr notes_data \<Rightarrow>
                       (let meeting_note = make_note info now notes_data
                        in (Some meeting_note,
                            save_to_docs lib docs w2 meeting_note notes_data)))))"

section \<open>AgenticWorkSystem\<close>




section \<open>Concrete collaborators\<close>

text \<open>
  A fixed instance of the collaborators, on which the theorems below are run: a host whose
  local zone is UTC and whose clock stands at 2024-05-01 10:00:00, an ISO parser and a JSON
  parser given by their values on
  the strings used, a mailbox, a calendar, a text-generation provider, and chat providers
  that accept, reject or cannot be reached.
\<close>

definition w0 :: world where
  "w0 = \<lparr>logs = [], slack_calls = [], docs_calls = [], ticks = 0\<rparr>"

definition T0 :: int where
  \<comment> \<open>2024-05-01 10:00:00, in microseconds since 0001-01-01 00:00:00\<close>
  "T0 = 63850154400000000"

definition demo_fromisoformat :: "str \<Rightarrow> exn + datetime" where
  "demo_fromisoformat s =
     (case map_of
        [(lit ''2024-05-01T10:10:00+00:00'', \<lparr>wall = 63850155000000000, tzinfo = Some 0\<rparr>),
         (lit ''2024-05-01T10:15:00+00:00'', \<lparr>wall = 63850155300000000, tzinfo = Some 0\<rparr>),
         (lit ''2024-05-01T10:20:00+00:00'', \<lparr>wall = 63850155600000000, tzinfo = Some 0\<rparr>),
         (lit ''2024-05-01T10:40:00+00:00'', \<lparr>wall = 63850156800000000, tzinfo = Some 0\<rparr>),
         (lit ''2024-05-01T10:15:00+05:30'', \<lparr>wall = 63850155300000000, tzinfo = Some 19800000000\<rparr>),
         (lit ''2024-05-01T10:20:00+05:30'', \<lparr>wall = 63850155600000000, tzinfo = Some 19800000000\<rparr>),
         (lit ''2024-05-01T15:45:00+05:30'', \<lparr>wall = 63850175100000000, tzinfo = Some 19800000000\<rparr>),
         (lit ''2024-05-01T15:50:00+05:30'', \<lparr>wall = 63850175400000000, tzinfo = Some 19800000000\<rparr>)] s of
        Some d \<Rightarrow> Inr d
      | None \<Rightarrow> Inl (ValueError (lit ''Invalid isoformat string'')))"

definition HIGH_JSON :: str where
  "HIGH_JSON = lit ''{\"priority\": \"High\"}''"

definition NOTES_JSON :: str where
  "NOTES_JSON = lit ''{\"summary\": \"Timeline reviewed\", \"action_items\": [\"Finish MVP\", \"Backend integration\"]}''"

definition demo_notes :: "(str \<times> json) list" where
  "demo_notes =
     [(lit ''summary'', JStr (lit ''Timeline reviewed'')),
      (lit ''action_items'', JArr [JStr (lit ''Finish MVP''), JStr (lit ''Backend integration'')])]"

definition demo_json_loads :: "str \<Rightarrow> exn + json" where
  "demo_json_loads s =
     (if s = HIGH_JSON then Inr (JObj [(lit ''priority'', JStr (lit ''High''))])
      else if s = NOTES_JSON then Inr (JObj demo_notes)
      else if s = lit ''{}'' then Inr (JObj [])
      else if s = lit ''[]'' then Inr (JArr [])
      else Inl (JSONDecodeError (lit ''Expecting value: line 1 column 1 (char 0)'')))"

definition demo_lib :: pylib where
  "demo_lib =
     \<lparr>json_loads = demo_json_loads,
      urlsafe_b64decode_utf8 = (\<lambda>d. if d = lit ''aGVsbG8='' then Inr (lit ''hello'')
                                    else Inl (ValueError (lit ''Incorrect padding''))),
      fromisoformat = demo_fromisoformat,
      isoformat = (\<lambda>t. lit ''2024-05-01T10:00:00''),
      strftime = (\<lambda>f t. if f = lit ''%Y-%m-%d'' then lit ''2024-05-01'' else lit ''2024-05-01 10:00''),
      fmt_json = (\<lambda>j. case j of JStr x \<Rightarrow> x | _ \<Rightarrow> lit ''None''),
      local_now = (\<lambda>n. T0),
      utc_now = (\<lambda>n. T0)\<rparr>"

definition slack_ok :: slack_client where
  "slack_ok history call = Inr (Some (lit ''1714557600.000100''))"

definition slack_down :: slack_client where
  \<comment> \<open>the provider cannot be reached: the send raises an error that is not a SlackApiError\<close>
  "slack_down history call = Inl (ProviderError (lit ''connection refused''))"

definition slack_rejects :: slack_client where
  \<comment> \<open>the provider answers every call with an API error\<close>
  "slack_rejects history call = Inl (SlackApiError (lit ''channel_not_found''))"


definition standup :: "str \<Rightarrow> MeetingRecord" where
  "standup start =
     \<lparr>id' = lit ''evt1'', title = lit ''Standup'', start_time = Some start,
      attendees = [lit ''ann@example.com''], description = [], analysis = [],
      meet_link = None\<rparr>"

definition plain_message :: "str \<Rightarrow> str \<Rightarrow> gmail_message" where
  "plain_message subj sndr =
     \<lparr>msg_payload = Some \<lparr>headers = Some [\<lparr>h_name = Some (lit ''From''), h_value = Some sndr\<rparr>,
                                           \<lparr>h_name = Some (lit ''Subject''), h_value = Some subj\<rparr>],
                           parts = None,
                           payload_mimeType = Some (lit ''text/plain''),
                           payload_body = Some (Some (lit ''aGVsbG8=''))\<rparr>\<rparr>"

definition demo_messages_get :: "str \<Rightarrow> exn + gmail_message" where
  "demo_messages_get i =
     (if i = lit ''m1'' then Inr (plain_message (lit ''Budget'') (lit ''cfo@example.com''))
      else if i = lit ''m2'' then Inr (plain_message (lit ''Lunch'') (lit ''bob@example.com''))
      else if i = lit ''m4'' then Inr (plain_message (lit ''Ping'') (lit ''eve@example.com''))
      else Inl (ProviderError (lit ''HttpError 404'')))"

definition demo_gmail_refs :: "message_ref list \<Rightarrow> gmail_service" where
  "demo_gmail_refs refs =
     \<lparr>messages_list = (\<lambda>n. Inr (Some refs)), messages_get = demo_messages_get\<rparr>"

definition demo_gmail :: "str list \<Rightarrow> gmail_service" where
  \<comment> \<open>a mailbox whose listing gives the messages with these ids\<close>
  "demo_gmail ids = demo_gmail_refs (map (\<lambda>i. \<lparr>ref_id = Some i\<rparr>) ids)"

definition demo_llama :: llama_client where
  "demo_llama system_prompt prompt =
     (if prompt = summary_prompt (lit ''Budget'') (lit ''cfo@example.com'') (lit ''hello'') then Inr HIGH_JSON
      else if prompt = summary_prompt (lit ''Ping'') (lit ''eve@example.com'') (lit ''hello'') then Inr (lit ''{}'')
      else if system_prompt = NOTES_SYSTEM_PROMPT then Inr NOTES_JSON
      else Inr (lit ''Sounds good, see you at noon.''))"





definition docs_down :: docs_service where
  "docs_down = \<lparr>documents_create = (\<lambda>t. Inl (ProviderError (lit ''HttpError 500''))),
                documents_batchUpdate = (\<lambda>i c. Inr ())\<rparr>"

definition project_review :: notes_meeting_info where
  "project_review =
     \<lparr>mi_id = Some (lit ''meeting123''), mi_title = Some (lit ''Project Review''),
      mi_attendees = Some [lit ''john@company.com'', lit ''sarah@company.com'']\<rparr>"



section \<open>Helper lemmas\<close>

lemma slack_calls_log [simp]:
  "slack_calls (log_info m w) = slack_calls w"
  "slack_calls (log_error m w) = slack_calls w"
  by (simp_all add: log_info_def log_error_def)

lemma NotificationAgent_execute_calls:
  "slack_calls (snd (NotificationAgent_execute slack w msg ch u)) =
   slack_calls w @ [notification_call msg ch u]"
  by (simp add: NotificationAgent_execute_def Let_def split: sum.splits)

lemma NotificationAgent_execute_callsD:
  "NotificationAgent_execute slack w msg ch u = (r, w') \<Longrightarrow>
   slack_calls w' = slack_calls w @ [notification_call msg ch u]"
  using NotificationAgent_execute_calls [of slack w msg ch u] by simp

lemma dt_sub_same [simp]: "dt_sub a \<lparr>wall = n, tzinfo = tzinfo a\<rparr> = Inr (wall a - n)"
  by (simp add: dt_sub_def split: option.splits)

lemma remind_meeting_calls:
  assumes "start_time m = Some s" and "fromisoformat lib (replace_Z s) = Inr start"
  shows "slack_calls (remind_meeting lib slack w m) =
         slack_calls w @
           (if minutes 15 \<le> wall start - local_now lib (ticks w)
               \<and> wall start - local_now lib (ticks w) \<le> minutes 30
            then [notification_call (reminder_msg m (wall start - local_now lib (ticks w))) None True]
            else [])"
  using assms
  by (auto simp: remind_meeting_def Let_def reminder_failed_def split: prod.splits sum.splits
      dest!: NotificationAgent_execute_callsD)

lemma join_str_Cons: "\<exists>rest. join_str sep (p # ps) = p @ rest"
  by (cases ps) auto

lemma reminder_msg_eq:
  "reminder_msg m delta =
     BELL @ lit '' Reminder: '' @ [39] @ title m @ [39] @ lit '' starts in ''
       @ str_int (delta div 60000000) @ lit '' minutes''
       @ (case meet_link m of None \<Rightarrow> [] | Some l \<Rightarrow> if l = [] then [] else [10] @ lit ''Join: '' @ l)"
  by (simp add: reminder_msg_def whole_minutes_def Let_def split: option.splits)

lemma remind_meeting_const_clock:
  assumes "\<forall>n. local_now lib n = t"
  shows "\<exists>E. (\<forall>w. slack_calls (remind_meeting lib slack w m) = slack_calls w @ E)
           \<and> (\<forall>s start. start_time m = Some s \<longrightarrow> fromisoformat lib (replace_Z s) = Inr start \<longrightarrow>
                 minutes 15 \<le> wall start - t \<longrightarrow> wall start - t \<le> minutes 30 \<longrightarrow>
                 E = [notification_call (reminder_msg m (wall start - t)) None True])"
proof (cases "start_time m")
  case None
  then have "\<forall>w. slack_calls (remind_meeting lib slack w m) = slack_calls w @ []"
    by (simp add: remind_meeting_def reminder_failed_def)
  with None show ?thesis by auto
next
  case (Some s)
  show ?thesis
  proof (cases "fromisoformat lib (replace_Z s)")
    case (Inl e)
    with Some have "\<forall>w. slack_calls (remind_meeting lib slack w m) = slack_calls w @ []"
      by (simp add: remind_meeting_def reminder_failed_def)
    with Some Inl show ?thesis by auto
  next
    case (Inr start)
    let ?E = "if minutes 15 \<le> wall start - t \<and> wall start - t \<le> minutes 30
              then [notification_call (reminder_msg m (wall start - t)) None True] else []"
    have "\<forall>w. slack_calls (remind_meeting lib slack w m) = slack_calls w @ ?E"
      using remind_meeting_calls [OF Some Inr, of slack] assms by simp
    with Some Inr show ?thesis by (intro exI [of _ ?E]) auto
  qed
qed

lemma schedule_const_clock:
  assumes "\<forall>n. local_now lib n = t"
  shows "\<exists>E. (\<forall>w. slack_calls (schedule_meeting_reminders lib slack w ms) = slack_calls w @ E)
           \<and> (\<forall>m\<in>set ms. \<forall>s start. start_time m = Some s \<longrightarrow>
                 fromisoformat lib (replace_Z s) = Inr start \<longrightarrow>
                 minutes 15 \<le> wall start - t \<longrightarrow> wall start - t \<le> minutes 30 \<longrightarrow>
                 notification_call (reminder_msg m (wall start - t)) None True \<in> set E)"
proof (induction ms)
  case Nil
  show ?case by (simp add: schedule_meeting_reminders_def)
next
  case (Cons m ms)
  from remind_meeting_const_clock [OF assms, of slack m] obtain E1 where
    e1: "\<forall>w. slack_calls (remind_meeting lib slack w m) = slack_calls w @ E1"
    and e1': "\<forall>s start. start_time m = Some s \<longrightarrow> fromisoformat lib (replace_Z s) = Inr start \<longrightarrow>
                 minutes 15 \<le> wall start - t \<longrightarrow> wall start - t \<le> minutes 30 \<longrightarrow>
                 E1 = [notification_call (reminder_msg m (wall start - t)) None True]"
    by blast
  from Cons.IH obtain E2 where
    e2: "\<forall>w. slack_calls (schedule_meeting_reminders lib slack w ms) = slack_calls w @ E2"
    and e2': "\<forall>m\<in>set ms. \<forall>s start. start_time m = Some s \<longrightarrow>
                 fromisoformat lib (replace_Z s) = Inr start \<longrightarrow>
                 minutes 15 \<le> wall start - t \<longrightarrow> wall start - t \<le> minutes 30 \<longrightarrow>
                 notification_call (reminder_msg m (wall start - t)) None True \<in> set E2"
    by blast
  have "\<forall>w. slack_calls (schedule_meeting_reminders lib slack w (m # ms)) =
            slack_calls w @ (E1 @ E2)"
    using e1 e2 by (simp add: schedule_meeting_reminders_def)
  moreover have "\<forall>m'\<in>set (m # ms). \<forall>s start. start_time m' = Some s \<longrightarrow>
                 fromisoformat lib (replace_Z s) = Inr start \<longrightarrow>
                 minutes 15 \<le> wall start - t \<longrightarrow> wall start - t \<le> minutes 30 \<longrightarrow>
                 notification_call (reminder_msg m' (wall start - t)) None True \<in> set (E1 @ E2)"
    using e1' e2' by auto
  ultimately show ?case by blast
qed

lemma demo_parse:
  "fromisoformat demo_lib (replace_Z (lit ''2024-05-01T10:10:00Z'')) =
     Inr \<lparr>wall = T0 + minutes 10, tzinfo = Some 0\<rparr>"
  "fromisoformat demo_lib (replace_Z (lit ''2024-05-01T10:15:00Z'')) =
     Inr \<lparr>wall = T0 + minutes 15, tzinfo = Some 0\<rparr>"
  "fromisoformat demo_lib (replace_Z (lit ''2024-05-01T10:20:00Z'')) =
     Inr \<lparr>wall = T0 + minutes 20, tzinfo = Some 0\<rparr>"
  "fromisoformat demo_lib (replace_Z (lit ''2024-05-01T10:40:00Z'')) =
     Inr \<lparr>wall = T0 + minutes 40, tzinfo = Some 0\<rparr>"
  by (simp_all add: demo_lib_def demo_fromisoformat_def replace_Z_def lit_def T0_def minutes_def)

lemma demo_parse_offset:
  "fromisoformat demo_lib (replace_Z (lit ''2024-05-01T10:15:00+05:30'')) =
     Inr \<lparr>wall = T0 + minutes 15, tzinfo = Some (minutes 330)\<rparr>"
  "fromisoformat demo_lib (replace_Z (lit ''2024-05-01T10:20:00+05:30'')) =
     Inr \<lparr>wall = T0 + minutes 20, tzinfo = Some (minutes 330)\<rparr>"
  "fromisoformat demo_lib (replace_Z (lit ''2024-05-01T15:45:00+05:30'')) =
     Inr \<lparr>wall = T0 + minutes 345, tzinfo = Some (minutes 330)\<rparr>"
  "fromisoformat demo_lib (replace_Z (lit ''2024-05-01T15:50:00+05:30'')) =
     Inr \<lparr>wall = T0 + minutes 350, tzinfo = Some (minutes 330)\<rparr>"
  by (simp_all add: demo_lib_def demo_fromisoformat_def replace_Z_def lit_def T0_def minutes_def)

lemma demo_utc_now: "utc_now demo_lib n = T0"
  by (simp add: demo_lib_def)

lemma schedule_single:
  "schedule_meeting_reminders lib slack w [m] = remind_meeting lib slack w m"
  by (simp add: schedule_meeting_reminders_def)

lemma demo_now: "T0 = local_now demo_lib (ticks w)"
  by (simp add: demo_lib_def)

lemma demo_clock: "\<forall>n. local_now demo_lib n = T0"
  by (simp add: demo_lib_def)

lemma standup_start: "start_time (standup s) = Some s"
  by (simp add: standup_def)

lemma standup_msg:
  "reminder_msg (standup s) 900000000 =
     BELL @ lit '' Reminder: '' @ [39] @ lit ''Standup'' @ [39] @ lit '' starts in 15 minutes''"
  "reminder_msg (standup s) 1200000000 =
     BELL @ lit '' Reminder: '' @ [39] @ lit ''Standup'' @ [39] @ lit '' starts in 20 minutes''"
  by (simp_all add: reminder_msg_def standup_def whole_minutes_def str_int_def str_nat.simps lit_def)

lemma get_llm_response_fst:
  "fst (get_llm_response llama w p s) = fst (get_llm_response llama w' p s)"
  by (simp add: get_llm_response_def split: sum.splits)

lemma process_email_fst:
  "fst (process_email lib llama gm w i) = fst (process_email lib llama gm w' i)"
proof (cases "fetch_email lib gm i")
  case (Inl e)
  then show ?thesis by (simp add: process_email_def)
next
  case (Inr x)
  obtain subj sndr body where x: "x = (subj, sndr, body)" by (cases x) auto
  obtain r1 w1 where a: "get_llm_response llama w (summary_prompt subj sndr body) EMAIL_SYSTEM_PROMPT = (r1, w1)"
    by (cases "get_llm_response llama w (summary_prompt subj sndr body) EMAIL_SYSTEM_PROMPT") auto
  obtain r2 w2 where b: "get_llm_response llama w' (summary_prompt subj sndr body) EMAIL_SYSTEM_PROMPT = (r2, w2)"
    by (cases "get_llm_response llama w' (summary_prompt subj sndr body) EMAIL_SYSTEM_PROMPT") auto
  have "r1 = r2"
    using get_llm_response_fst [of llama w "summary_prompt subj sndr body" EMAIL_SYSTEM_PROMPT w'] a b
    by simp
  then show ?thesis
    using Inr x a b by (simp add: process_email_def split: sum.splits)
qed

lemma process_emails_ids:
  "fst (process_emails lib llama gm w acc (map (\<lambda>i. \<lparr>ref_id = Some i\<rparr>) ids)) =
     Inr (acc @ concat (map (\<lambda>i. case fst (process_email lib llama gm wa i) of
                                   None \<Rightarrow> [] | Some x \<Rightarrow> [x]) ids))"
proof (induction ids arbitrary: w acc)
  case Nil
  show ?case by simp
next
  case (Cons i ids)
  obtain r w1 where a: "process_email lib llama gm w i = (r, w1)"
    by (cases "process_email lib llama gm w i") auto
  have r: "fst (process_email lib llama gm wa i) = r"
    using process_email_fst [of lib llama gm wa i w] a by simp
  show ?case
    using a r Cons.IH [of w1 "case r of None \<Rightarrow> acc | Some x \<Rightarrow> acc @ [x]"]
    by (simp add: subscript_def split: option.splits)
qed

lemma process_emails_missing_id:
  "fst (process_emails lib llama gm w acc
          (map (\<lambda>i. \<lparr>ref_id = Some i\<rparr>) ids @ \<lparr>ref_id = None\<rparr> # messages)) =
     Inl (key_error ''id'')"
proof (induction ids arbitrary: w acc)
  case Nil
  show ?case by (simp add: subscript_def)
next
  case (Cons i ids)
  obtain r w1 where a: "process_email lib llama gm w i = (r, w1)"
    by (cases "process_email lib llama gm w i") auto
  show ?case
    using a Cons.IH [of w1 "case r of None \<Rightarrow> acc | Some x \<Rightarrow> acc @ [x]"]
    by (simp add: subscript_def)
qed

lemma EmailAgent_execute_fst:
  "fst (EmailAgent_execute lib llama gm w n) =
     (case messages_list gm n of
        Inl e \<Rightarrow> []
      | Inr results \<Rightarrow>
          (case fst (process_emails lib llama gm w [] (get_default results [])) of
             Inl e \<Rightarrow> []
           | Inr summaries \<Rightarrow> summaries))"
  by (simp add: EmailAgent_execute_def split: sum.splits prod.splits)



text \<open>
  What holds of the batches: a raising fetch step gives the empty list; when every listed
  message carries its id, the Email agent returns the result of each message that has one,
  in order, and a message whose processing fails is skipped; the Calendar agent does so
  for every list of events.
\<close>

lemma EmailAgent_execute_isolation:
  "(messages_list gm n = Inl e \<longrightarrow> fst (EmailAgent_execute lib llama gm w n) = [])
 \<and> (messages_list gm n = Inr (Some (map (\<lambda>i. \<lparr>ref_id = Some i\<rparr>) (xs @ bad # ys))) \<longrightarrow>
      fst (process_email lib llama gm w bad) = None \<longrightarrow>
      fst (EmailAgent_execute lib llama gm w n) =
        concat (map (\<lambda>i. case fst (process_email lib llama gm w i) of
                           None \<Rightarrow> [] | Some r \<Rightarrow> [r]) xs)
        @ concat (map (\<lambda>i. case fst (process_email lib llama gm w i) of
                             None \<Rightarrow> [] | Some r \<Rightarrow> [r]) ys))"
proof -
  have "fst (EmailAgent_execute lib llama gm w n) =
          concat (map (\<lambda>i. case fst (process_email lib llama gm w i) of
                             None \<Rightarrow> [] | Some r \<Rightarrow> [r]) (xs @ bad # ys))"
    if "messages_list gm n = Inr (Some (map (\<lambda>i. \<lparr>ref_id = Some i\<rparr>) (xs @ bad # ys)))"
    using that
    by (simp add: EmailAgent_execute_fst get_default_def process_emails_ids [where wa = w]
        del: map_append)
  then show ?thesis
    by (simp add: EmailAgent_execute_fst)
qed


lemma summarize_response_fallback:
  "json_loads lib response = Inl e \<Longrightarrow> is_JSONDecodeError e \<Longrightarrow>
   summarize_response lib sndr subj response = Inr (fallback_summary sndr subj response)"
  by (simp add: summarize_response_def)

lemma summarize_response_parsed:
  "json_loads lib response = Inr (JObj d) \<Longrightarrow>
   summarize_response lib sndr subj response = Inr (parsed_summary sndr subj d)"
  by (simp add: summarize_response_def as_dict_def bind_exn_def)

lemma process_email_ok:
  assumes "fetch_email lib gm i = Inr (subj, sndr, body)"
    and "get_llm_response llama w (summary_prompt subj sndr body) EMAIL_SYSTEM_PROMPT = (response, w1)"
    and "summarize_response lib sndr subj response = Inr r"
  shows "process_email lib llama gm w i = (Some r, w1)"
  using assms by (simp add: process_email_def)




lemma save_to_docs_create_fails:
  assumes "documents_create docs (lit ''Meeting Notes - '' @ note_title n @ lit '' - ''
                                    @ strftime lib (lit ''%Y-%m-%d'') (note_date n)) = Inl e"
  shows "save_to_docs lib docs w n d =
           log_error (lit ''Failed to save to Google Docs: '' @ exn_str e)
             (w\<lparr>docs_calls := docs_calls w @ [DocCreate (lit ''Meeting Notes - '' @ note_title n @ lit '' - ''
                                    @ strftime lib (lit ''%Y-%m-%d'') (note_date n))]\<rparr>)"
  using assms by (simp add: save_to_docs_def Let_def)

lemma save_to_docs_batchUpdate_fails:
  assumes "documents_create docs (lit ''Meeting Notes - '' @ note_title n @ lit '' - ''
                                    @ strftime lib (lit ''%Y-%m-%d'') (note_date n)) = Inr doc_id"
    and "doc_content lib n d = Inr content"
    and "documents_batchUpdate docs doc_id content = Inl e"
  shows "logs (save_to_docs lib docs w n d) =
           logs w @ [(ERROR, lit ''Failed to save to Google Docs: '' @ exn_str e)]"
  using assms by (simp add: save_to_docs_def Let_def log_error_def)

lemma demo_list:
  "messages_list (demo_gmail ids) n = Inr (Some (map (\<lambda>i. \<lparr>ref_id = Some i\<rparr>) ids))"
  by (simp add: demo_gmail_def demo_gmail_refs_def)

lemma demo_fetch_refs:
  "fetch_email demo_lib (demo_gmail_refs refs) (lit ''m1'') =
     Inr (lit ''Budget'', lit ''cfo@example.com'', lit ''hello'')"
  "fetch_email demo_lib (demo_gmail_refs refs) (lit ''m2'') =
     Inr (lit ''Lunch'', lit ''bob@example.com'', lit ''hello'')"
  "fetch_email demo_lib (demo_gmail_refs refs) (lit ''m3'') =
     Inl (ProviderError (lit ''HttpError 404''))"
  "fetch_email demo_lib (demo_gmail_refs refs) (lit ''m4'') =
     Inr (lit ''Ping'', lit ''eve@example.com'', lit ''hello'')"
  by (simp_all add: fetch_email_def demo_gmail_refs_def demo_messages_get_def plain_message_def
      bind_exn_def subscript_def get_default_def extract_email_body_def body_data_def
      demo_lib_def lit_def)

lemma demo_fetch:
  "fetch_email demo_lib (demo_gmail ids) (lit ''m1'') =
     Inr (lit ''Budget'', lit ''cfo@example.com'', lit ''hello'')"
  "fetch_email demo_lib (demo_gmail ids) (lit ''m2'') =
     Inr (lit ''Lunch'', lit ''bob@example.com'', lit ''hello'')"
  "fetch_email demo_lib (demo_gmail ids) (lit ''m3'') = Inl (ProviderError (lit ''HttpError 404''))"
  "fetch_email demo_lib (demo_gmail ids) (lit ''m4'') =
     Inr (lit ''Ping'', lit ''eve@example.com'', lit ''hello'')"
  by (simp_all add: demo_gmail_def demo_fetch_refs)

lemma demo_llm:
  "get_llm_response demo_llama w
     (summary_prompt (lit ''Budget'') (lit ''cfo@example.com'') (lit ''hello''))
     EMAIL_SYSTEM_PROMPT = (HIGH_JSON, w)"
  "get_llm_response demo_llama w
     (summary_prompt (lit ''Lunch'') (lit ''bob@example.com'') (lit ''hello''))
     EMAIL_SYSTEM_PROMPT = (lit ''Sounds good, see you at noon.'', w)"
  "get_llm_response demo_llama w
     (summary_prompt (lit ''Ping'') (lit ''eve@example.com'') (lit ''hello''))
     EMAIL_SYSTEM_PROMPT = (lit ''{}'', w)"
  by (simp_all add: get_llm_response_def demo_llama_def summary_prompt_def lit_def
      EMAIL_SYSTEM_PROMPT_def NOTES_SYSTEM_PROMPT_def)

lemma demo_loads:
  "json_loads demo_lib HIGH_JSON = Inr (JObj [(lit ''priority'', JStr (lit ''High''))])"
  "json_loads demo_lib (lit ''Sounds good, see you at noon.'') =
     Inl (JSONDecodeError (lit ''Expecting value: line 1 column 1 (char 0)''))"
  "json_loads demo_lib (lit ''{}'') = Inr (JObj [])"
  "json_loads demo_lib NOTES_JSON = Inr (JObj demo_notes)"
  by (simp_all add: demo_lib_def demo_json_loads_def HIGH_JSON_def NOTES_JSON_def lit_def)

lemma demo_process_m1_refs:
  "fst (process_email demo_lib demo_llama (demo_gmail_refs refs) w (lit ''m1'')) =
     Some \<lparr>sender = lit ''cfo@example.com'', subject = lit ''Budget'', summary = JStr [],
           priority = JStr (lit ''High''), action_required = JBool False, meeting_info = JNull\<rparr>"
  using process_email_ok [OF demo_fetch_refs(1) demo_llm(1)
      summarize_response_parsed [OF demo_loads(1)]]
  by (simp add: parsed_summary_def dict_get_def lit_def)

lemma demo_process_m1:
  "fst (process_email demo_lib demo_llama (demo_gmail ids) w (lit ''m1'')) =
     Some \<lparr>sender = lit ''cfo@example.com'', subject = lit ''Budget'', summary = JStr [],
           priority = JStr (lit ''High''), action_required = JBool False, meeting_info = JNull\<rparr>"
  by (simp add: demo_gmail_def demo_process_m1_refs)

lemma demo_process_m2:
  "fst (process_email demo_lib demo_llama (demo_gmail ids) w (lit ''m2'')) =
     Some \<lparr>sender = lit ''bob@example.com'', subject = lit ''Lunch'',
           summary = JStr (lit ''Sounds good, see you at noon.''),
           priority = JStr (lit ''Medium''), action_required = JBool True, meeting_info = JNull\<rparr>"
proof -
  have d: "is_JSONDecodeError (JSONDecodeError (lit ''Expecting value: line 1 column 1 (char 0)''))"
    by simp
  have "summarize_response demo_lib (lit ''bob@example.com'') (lit ''Lunch'')
          (lit ''Sounds good, see you at noon.'')
          = Inr (fallback_summary (lit ''bob@example.com'') (lit ''Lunch'')
                   (lit ''Sounds good, see you at noon.''))"
    by (rule summarize_response_fallback [OF demo_loads(2) d])
  from process_email_ok [OF demo_fetch(2) demo_llm(2) this, of "ids" w]
  show ?thesis by (simp add: fallback_summary_def lit_def)
qed

lemma demo_process_m3:
  "fst (process_email demo_lib demo_llama (demo_gmail ids) w (lit ''m3'')) = None"
  using demo_fetch(3) [of ids] by (simp add: process_email_def)





section \<open>The digest that is sent\<close>

text \<open>
  C1, as the code has it: the digest is the header line; then, only when the list of emails
  is not empty, the number of emails processed; then, only when at least one email has
  priority High, the number of those; then, only when the list of meetings is not empty,
  the number of meetings followed by the title and start time of at most the first three
  meetings. The parts are joined by newlines, so the message starts with the header, and
  the message is always handed to one call of the chat provider on the default channel.
\<close>

theorem digest_construction:
  "summary_parts emails meetings =
     [DIGEST_HEADER]
     @ (if emails = [] then [] else [EMAILS_LABEL @ str_nat (length emails)])
     @ (if filter (\<lambda>e. priority e = JStr (lit ''High'')) emails = [] then []
        else [HIGH_LABEL
                @ str_nat (length (filter (\<lambda>e. priority e = JStr (lit ''High'')) emails))])
     @ (if meetings = [] then []
        else (MEETINGS_LABEL @ str_nat (length meetings)) # map meeting_line (take 3 meetings))
   \<and> summary_message emails meetings = join_str [10] (summary_parts emails meetings)
   \<and> (\<exists>rest. summary_message emails meetings = DIGEST_HEADER @ rest)
   \<and> slack_calls (snd (send_daily_summary slack w emails meetings))
       = slack_calls w @ [\<lparr>sc_channel = lit ''#general'',
                            sc_text = summary_message emails meetings,
                            sc_username = lit ''AI Assistant''\<rparr>]"
proof -
  have "\<exists>ps. summary_parts emails meetings = DIGEST_HEADER # ps"
    by (simp add: summary_parts_def Let_def)
  then obtain ps where ps: "summary_parts emails meetings = DIGEST_HEADER # ps" ..
  have "\<exists>rest. summary_message emails meetings = DIGEST_HEADER @ rest"
    unfolding summary_message_def ps by (rule join_str_Cons)
  then show ?thesis
    by (simp add: summary_parts_def Let_def summary_message_def send_daily_summary_def
        NotificationAgent_execute_calls notification_call_def)
qed

text \<open>
  C1 as stated fails: with no emails and no meetings the digest is the header alone; it
  holds no count, since the digit 0 does not occur in it.
\<close>

theorem digest_empty_has_no_counts_counterexample:
  "summary_message [] [] = DIGEST_HEADER \<and> 48 \<notin> set (summary_message [] [])"
  by (simp add: summary_message_def summary_parts_def DIGEST_HEADER_def lit_def)

section \<open>Reminder window and the zone of the host\<close>

text \<open>
  C2: the loop of \<open>_schedule_meeting_reminders\<close> takes \<open>datetime.now()\<close>, the local
  reading of the host's clock, and gives it the \<open>tzinfo\<close> of the start time without
  converting it; the window is then measured between the two readings as they stand. On a
  host whose zone is UTC, at 10:00, a meeting that starts at 15:50+05:30, 20 minutes from
  now, gets no reminder, and a meeting that started at 10:20+05:30, 310 minutes ago, gets
  one.
\<close>

theorem reminder_window_ignores_host_zone:
  "fromisoformat demo_lib (replace_Z (lit ''2024-05-01T15:50:00+05:30'')) =
     Inr \<lparr>wall = T0 + minutes 350, tzinfo = Some (minutes 330)\<rparr>
   \<and> timestamp_utc \<lparr>wall = T0 + minutes 350, tzinfo = Some (minutes 330)\<rparr> =
       Some (utc_now demo_lib (ticks w0) + minutes 20)
   \<and> slack_calls (schedule_meeting_reminders demo_lib slack_ok w0
                     [standup (lit ''2024-05-01T15:50:00+05:30'')]) = []
   \<and> fromisoformat demo_lib (replace_Z (lit ''2024-05-01T10:20:00+05:30'')) =
       Inr \<lparr>wall = T0 + minutes 20, tzinfo = Some (minutes 330)\<rparr>
   \<and> timestamp_utc \<lparr>wall = T0 + minutes 20, tzinfo = Some (minutes 330)\<rparr> =
       Some (utc_now demo_lib (ticks w0) - minutes 310)
   \<and> map sc_text (slack_calls (schedule_meeting_reminders demo_lib slack_ok w0
                                  [standup (lit ''2024-05-01T10:20:00+05:30'')])) =
       [URGENT_PREFIX @ BELL @ lit '' Reminder: '' @ [39] @ lit ''Standup'' @ [39]
          @ lit '' starts in 20 minutes'']"
proof -
  have a: "slack_calls w0 = []" by (simp add: w0_def)
  have t: "timestamp_utc \<lparr>wall = T0 + minutes 350, tzinfo = Some (minutes 330)\<rparr> =
             Some (utc_now demo_lib (ticks w0) + minutes 20)"
          "timestamp_utc \<lparr>wall = T0 + minutes 20, tzinfo = Some (minutes 330)\<rparr> =
             Some (utc_now demo_lib (ticks w0) - minutes 310)"
    by (simp_all add: timestamp_utc_def demo_utc_now minutes_def)
  have far: "slack_calls (schedule_meeting_reminders demo_lib slack_ok w0
                     [standup (lit ''2024-05-01T15:50:00+05:30'')]) = []"
    using remind_meeting_calls [OF standup_start demo_parse_offset(4), of slack_ok w0]
    by (simp add: schedule_single a demo_now [symmetric] minutes_def)
  have past: "slack_calls (schedule_meeting_reminders demo_lib slack_ok w0
                     [standup (lit ''2024-05-01T10:20:00+05:30'')]) =
                [notification_call (reminder_msg (standup (lit ''2024-05-01T10:20:00+05:30''))
                   1200000000) None True]"
    using remind_meeting_calls [OF standup_start demo_parse_offset(2), of slack_ok w0]
    by (simp add: schedule_single a demo_now [symmetric] minutes_def)
  show ?thesis
    using t far
    by (simp add: demo_parse_offset past standup_msg notification_call_def)
qed

section \<open>Reminder message and the zone of the host\<close>

text \<open>
  C7: the message of a reminder is the urgent marker, the title in quotes, the whole
  minutes of the difference of the two readings, and a line \<open>Join: link\<close> when the meeting
  has a non-empty \<open>meet_link\<close>; but both the window and the minutes printed come from the
  reading of the host's local clock taken as if it were in the event's zone. On a host
  whose zone is UTC, at 10:00, a meeting that starts at 15:45+05:30, in exactly 15 minutes,
  gets no reminder at all, and a meeting that started at 10:15+05:30, 315 minutes ago, gets
  a reminder that says it starts in 15 minutes.
\<close>

theorem reminder_minutes_ignore_host_zone:
  "fromisoformat demo_lib (replace_Z (lit ''2024-05-01T15:45:00+05:30'')) =
     Inr \<lparr>wall = T0 + minutes 345, tzinfo = Some (minutes 330)\<rparr>
   \<and> timestamp_utc \<lparr>wall = T0 + minutes 345, tzinfo = Some (minutes 330)\<rparr> =
       Some (utc_now demo_lib (ticks w0) + minutes 15)
   \<and> slack_calls (schedule_meeting_reminders demo_lib slack_ok w0
                     [standup (lit ''2024-05-01T15:45:00+05:30'')]) = []
   \<and> fromisoformat demo_lib (replace_Z (lit ''2024-05-01T10:15:00+05:30'')) =
       Inr \<lparr>wall = T0 + minutes 15, tzinfo = Some (minutes 330)\<rparr>
   \<and> timestamp_utc \<lparr>wall = T0 + minutes 15, tzinfo = Some (minutes 330)\<rparr> =
       Some (utc_now demo_lib (ticks w0) - minutes 315)
   \<and> map sc_text (slack_calls (schedule_meeting_reminders demo_lib slack_ok w0
                                  [standup (lit ''2024-05-01T10:15:00+05:30'')])) =
       [URGENT_PREFIX @ BELL @ lit '' Reminder: '' @ [39] @ lit ''Standup'' @ [39]
          @ lit '' starts in 15 minutes'']"
proof -
  have a: "slack_calls w0 = []" by (simp add: w0_def)
  have t: "timestamp_utc \<lparr>wall = T0 + minutes 345, tzinfo = Some (minutes 330)\<rparr> =
             Some (utc_now demo_lib (ticks w0) + minutes 15)"
          "timestamp_utc \<lparr>wall = T0 + minutes 15, tzinfo = Some (minutes 330)\<rparr> =
             Some (utc_now demo_lib (ticks w0) - minutes 315)"
    by (simp_all add: timestamp_utc_def demo_utc_now minutes_def)
  have far: "slack_calls (schedule_meeting_reminders demo_lib slack_ok w0
                     [standup (lit ''2024-05-01T15:45:00+05:30'')]) = []"
    using remind_meeting_calls [OF standup_start demo_parse_offset(3), of slack_ok w0]
    by (simp add: schedule_single a demo_now [symmetric] minutes_def)
  have past: "slack_calls (schedule_meeting_reminders demo_lib slack_ok w0
                     [standup (lit ''2024-05-01T10:15:00+05:30'')]) =
                [notification_call (reminder_msg (standup (lit ''2024-05-01T10:15:00+05:30''))
                   900000000) None True]"
    using remind_meeting_calls [OF standup_start demo_parse_offset(1), of slack_ok w0]
    by (simp add: schedule_single a demo_now [symmetric] minutes_def)
  show ?thesis
    using t far
    by (simp add: demo_parse_offset past standup_msg notification_call_def)
qed

section \<open>No deduplication of reminders\<close>

text \<open>
  C9: with the clock standing at \<open>t\<close>, two runs of the reminder check over the same
  meetings, the second from the state the first left, make the same calls to the chat
  provider a second time: the calls of both runs are \<open>E\<close> followed by \<open>E\<close> again, and \<open>E\<close>
  holds the reminder of every meeting inside the window.
\<close>

theorem reminder_check_not_deduplicated:
  assumes "\<forall>n. local_now lib n = t"
  shows "\<exists>E. slack_calls (schedule_meeting_reminders lib slack w ms) = slack_calls w @ E
            \<and> slack_calls (schedule_meeting_reminders lib slack
                             (schedule_meeting_reminders lib slack w ms) ms) = slack_calls w @ E @ E
            \<and> (\<forall>m\<in>set ms. \<forall>s start. start_time m = Some s \<longrightarrow>
                 fromisoformat lib (replace_Z s) = Inr start \<longrightarrow>
                 minutes 15 \<le> wall start - t \<longrightarrow> wall start - t \<le> minutes 30 \<longrightarrow>
                 notification_call (reminder_msg m (wall start - t)) None True \<in> set E)"
proof -
  from schedule_const_clock [OF assms, of slack ms] obtain E where
    e: "\<forall>w. slack_calls (schedule_meeting_reminders lib slack w ms) = slack_calls w @ E"
    and e': "\<forall>m\<in>set ms. \<forall>s start. start_time m = Some s \<longrightarrow>
                 fromisoformat lib (replace_Z s) = Inr start \<longrightarrow>
                 minutes 15 \<le> wall start - t \<longrightarrow> wall start - t \<le> minutes 30 \<longrightarrow>
                 notification_call (reminder_msg m (wall start - t)) None True \<in> set E"
    by blast
  have "slack_calls (schedule_meeting_reminders lib slack
                       (schedule_meeting_reminders lib slack w ms) ms) = slack_calls w @ E @ E"
    using e by simp
  with e e' show ?thesis by blast
qed

theorem reminder_check_not_deduplicated_witness:
  "slack_calls (schedule_meeting_reminders demo_lib slack_ok
                  (schedule_meeting_reminders demo_lib slack_ok w0
                     [standup (lit ''2024-05-01T10:20:00Z'')])
                  [standup (lit ''2024-05-01T10:20:00Z'')])
     = [notification_call (reminder_msg (standup (lit ''2024-05-01T10:20:00Z'')) (minutes 20))
          None True,
        notification_call (reminder_msg (standup (lit ''2024-05-01T10:20:00Z'')) (minutes 20))
          None True]"
proof -
  let ?m = "standup (lit ''2024-05-01T10:20:00Z'')"
  let ?c = "notification_call (reminder_msg ?m (minutes 20)) None True"
  have a: "slack_calls w0 = []" by (simp add: w0_def)
  have one: "slack_calls (schedule_meeting_reminders demo_lib slack_ok w0 [?m]) = [?c]"
    using remind_meeting_calls [OF standup_start demo_parse(3), of slack_ok w0]
    by (simp add: schedule_meeting_reminders_def a demo_now [symmetric] minutes_def)
  from reminder_check_not_deduplicated [OF demo_clock, of slack_ok w0 "[?m]"] obtain E where
    e1: "slack_calls (schedule_meeting_reminders demo_lib slack_ok w0 [?m]) = slack_calls w0 @ E"
    and e2: "slack_calls (schedule_meeting_reminders demo_lib slack_ok
               (schedule_meeting_reminders demo_lib slack_ok w0 [?m]) [?m]) = slack_calls w0 @ E @ E"
    by blast
  from e1 one a have "E = [?c]" by simp
  with e2 a show ?thesis by simp
qed

section \<open>NotificationAgent: which send errors are swallowed\<close>

text \<open>
  C4, as the code has it: when the call to the chat provider raises a \<open>SlackApiError\<close>,
  \<open>NotificationAgent.execute\<close> records the call, logs the error and returns normally; when
  it raises an exception of any other class, that exception leaves
  \<open>NotificationAgent.execute\<close>.
\<close>

theorem NotificationAgent_swallows_only_SlackApiError:
  assumes "slack (slack_calls w) (notification_call msg ch u) = Inl e"
  shows "(is_SlackApiError e \<longrightarrow>
            NotificationAgent_execute slack w msg ch u =
              (Inr (), log_error (lit ''Slack notification failed: '' @ exn_str e)
                         (w\<lparr>slack_calls := slack_calls w @ [notification_call msg ch u]\<rparr>)))
       \<and> (\<not> is_SlackApiError e \<longrightarrow> fst (NotificationAgent_execute slack w msg ch u) = Inl e)"
  using assms by (simp add: NotificationAgent_execute_def Let_def)

theorem NotificationAgent_swallows_only_SlackApiError_witness:
  "slack_rejects (slack_calls w0) (notification_call (lit ''hello'') None False)
     = Inl (SlackApiError (lit ''channel_not_found''))
   \<and> fst (NotificationAgent_execute slack_rejects w0 (lit ''hello'') None False) = Inr ()
   \<and> map fst (logs (snd (NotificationAgent_execute slack_rejects w0 (lit ''hello'') None False)))
       = [ERROR]
   \<and> slack_down (slack_calls w0) (notification_call (lit ''hello'') None True)
     = Inl (ProviderError (lit ''connection refused''))
   \<and> fst (NotificationAgent_execute slack_down w0 (lit ''hello'') None True)
     = Inl (ProviderError (lit ''connection refused''))"
  using NotificationAgent_swallows_only_SlackApiError
    [of slack_rejects w0 "lit ''hello''" None False "SlackApiError (lit ''channel_not_found'')"]
    NotificationAgent_swallows_only_SlackApiError
    [of slack_down w0 "lit ''hello''" None True "ProviderError (lit ''connection refused'')"]
  by (simp add: slack_rejects_def slack_down_def log_error_def w0_def)

text \<open>
  C4 as stated fails: a send that raises an error other than \<open>SlackApiError\<close> (the
  provider cannot be reached) propagates out of \<open>NotificationAgent.execute\<close>.
\<close>

theorem NotificationAgent_propagates_counterexample:
  "fst (NotificationAgent_execute slack_down w0 (lit ''hello'') None False)
     = Inl (ProviderError (lit ''connection refused''))"
  by (simp add: NotificationAgent_execute_def Let_def slack_down_def)

section \<open>Agent batches\<close>


section \<open>EmailAgent: responses that do not parse\<close>

text \<open>
  C6: when \<open>json.loads\<close> raises \<open>JSONDecodeError\<close> on the response of the gateway,
  \<open>_process_email\<close> returns the fallback record: sender and subject of the message, the
  first 200 characters of the raw response as summary, priority Medium, action required.
  In a batch of two unread emails, one whose response parses to priority High and one
  whose response does not parse, the agent returns both records.
\<close>

theorem email_parse_failure_fallback:
  assumes "fetch_email lib gm i = Inr (subj, sndr, body)"
    and "get_llm_response llama w (summary_prompt subj sndr body) EMAIL_SYSTEM_PROMPT = (response, w1)"
    and "json_loads lib response = Inl e" and "is_JSONDecodeError e"
  shows "process_email lib llama gm w i =
           (Some \<lparr>sender = sndr, subject = subj, summary = JStr (take 200 response),
                  priority = JStr (lit ''Medium''), action_required = JBool True,
                  meeting_info = JNull\<rparr>, w1)"
  using process_email_ok [OF assms(1,2) summarize_response_fallback [OF assms(3,4)]]
  by (simp add: fallback_summary_def)

theorem email_parse_failure_fallback_witness:
  "fst (EmailAgent_execute demo_lib demo_llama (demo_gmail [lit ''m1'', lit ''m2'']) w0 10) =
     [\<lparr>sender = lit ''cfo@example.com'', subject = lit ''Budget'', summary = JStr [],
       priority = JStr (lit ''High''), action_required = JBool False, meeting_info = JNull\<rparr>,
      \<lparr>sender = lit ''bob@example.com'', subject = lit ''Lunch'',
       summary = JStr (lit ''Sounds good, see you at noon.''),
       priority = JStr (lit ''Medium''), action_required = JBool True, meeting_info = JNull\<rparr>]"
proof -
  let ?gm = "demo_gmail [lit ''m1'', lit ''m2'']"
  have d: "is_JSONDecodeError (JSONDecodeError (lit ''Expecting value: line 1 column 1 (char 0)''))"
    by simp
  have t: "take 200 (lit ''Sounds good, see you at noon.'') = lit ''Sounds good, see you at noon.''"
    by (simp add: lit_def)
  have m2: "fst (process_email demo_lib demo_llama ?gm w0 (lit ''m2'')) =
              Some \<lparr>sender = lit ''bob@example.com'', subject = lit ''Lunch'',
                     summary = JStr (lit ''Sounds good, see you at noon.''),
                     priority = JStr (lit ''Medium''), action_required = JBool True,
                     meeting_info = JNull\<rparr>"
    using email_parse_failure_fallback [OF demo_fetch(2) demo_llm(2) demo_loads(2) d, of "[lit ''m1'', lit ''m2'']" w0]
    by (simp add: t)
  have "fst (EmailAgent_execute demo_lib demo_llama ?gm w0 10) =
          concat (map (\<lambda>i. case fst (process_email demo_lib demo_llama ?gm w0 i) of
                             None \<Rightarrow> [] | Some x \<Rightarrow> [x]) [lit ''m1'', lit ''m2''])"
    using process_emails_ids [of demo_lib demo_llama ?gm w0 "[]" "[lit ''m1'', lit ''m2'']" w0]
    by (simp add: EmailAgent_execute_fst demo_list get_default_def del: process_emails.simps)
  then show ?thesis by (simp add: demo_process_m1 m2)
qed

section \<open>EmailAgent: responses with missing keys\<close>

text \<open>
  C10: when the response parses to a JSON object, \<open>_process_email\<close> returns a record with
  every field set: each of summary, priority, action_required and meeting_info is the
  entry of the object, or, where the key is missing, the default \<open>''\<close>, \<open>'Low'\<close>,
  \<open>False\<close>, \<open>None\<close>. The defaults for priority and action_required differ from the values
  of the fallback record.
\<close>

theorem email_missing_keys_defaults:
  assumes "fetch_email lib gm i = Inr (subj, sndr, body)"
    and "get_llm_response llama w (summary_prompt subj sndr body) EMAIL_SYSTEM_PROMPT = (response, w1)"
    and "json_loads lib response = Inr (JObj d)"
  shows "\<exists>r. process_email lib llama gm w i = (Some r, w1)
           \<and> sender r = sndr \<and> subject r = subj
           \<and> summary r = (case map_of d (lit ''summary'') of None \<Rightarrow> JStr [] | Some v \<Rightarrow> v)
           \<and> priority r = (case map_of d (lit ''priority'') of None \<Rightarrow> JStr (lit ''Low'') | Some v \<Rightarrow> v)
           \<and> action_required r = (case map_of d (lit ''action_required'') of None \<Rightarrow> JBool False | Some v \<Rightarrow> v)
           \<and> meeting_info r = (case map_of d (lit ''meeting_info'') of None \<Rightarrow> JNull | Some v \<Rightarrow> v)
           \<and> priority (fallback_summary sndr subj response) \<noteq> JStr (lit ''Low'')
           \<and> action_required (fallback_summary sndr subj response) \<noteq> JBool False"
proof -
  have a: "process_email lib llama gm w i = (Some (parsed_summary sndr subj d), w1)"
    by (rule process_email_ok [OF assms(1,2) summarize_response_parsed [OF assms(3)]])
  have b: "priority (fallback_summary sndr subj response) \<noteq> JStr (lit ''Low'')"
          "action_required (fallback_summary sndr subj response) \<noteq> JBool False"
    by (simp_all add: fallback_summary_def lit_def)
  show ?thesis
    using a b by (simp add: parsed_summary_def dict_get_def)
qed

theorem email_missing_keys_defaults_witness:
  "process_email demo_lib demo_llama (demo_gmail [lit ''m4'']) w0 (lit ''m4'') =
     (Some \<lparr>sender = lit ''eve@example.com'', subject = lit ''Ping'', summary = JStr [],
            priority = JStr (lit ''Low''), action_required = JBool False, meeting_info = JNull\<rparr>, w0)"
  using email_missing_keys_defaults [OF demo_fetch(4) demo_llm(3) demo_loads(3), of "[lit ''m4'']" w0]
  by (auto simp: EmailSummary.equality)

section \<open>run_daily_workflow: which failures are reported\<close>




section \<open>MeetingNotesAgent: a failed save\<close>

text \<open>
  C8: once the response of the gateway has given the notes, \<open>MeetingNotesAgent.execute\<close>
  returns the MeetingNote built from them, whatever the document store does; when
  creating the document or writing its content raises, the error is logged as
  \<open>Failed to save to Google Docs\<close> and the same MeetingNote is returned.
\<close>

theorem notes_returned_when_save_fails:
  assumes "get_llm_response llama w
             (notes_prompt (get_default (mi_title info) (lit ''Unknown Meeting'')) transcript)
             NOTES_SYSTEM_PROMPT = (a, w1)"
    and "load_notes lib a = Inr (JObj d)"
    and "n = make_note info (local_now lib (ticks w1)) d"
    and "doc_title = lit ''Meeting Notes - '' @ note_title n @ lit '' - ''
                       @ strftime lib (lit ''%Y-%m-%d'') (note_date n)"
  shows "fst (MeetingNotesAgent_execute lib llama docs w transcript info) = Some n
       \<and> (\<forall>e. documents_create docs doc_title = Inl e \<longrightarrow>
            logs (snd (MeetingNotesAgent_execute lib llama docs w transcript info)) =
              logs w1 @ [(ERROR, lit ''Failed to save to Google Docs: '' @ exn_str e)])
       \<and> (\<forall>e doc_id content. documents_create docs doc_title = Inr doc_id \<longrightarrow>
            doc_content lib n d = Inr content \<longrightarrow>
            documents_batchUpdate docs doc_id content = Inl e \<longrightarrow>
            logs (snd (MeetingNotesAgent_execute lib llama docs w transcript info)) =
              logs w1 @ [(ERROR, lit ''Failed to save to Google Docs: '' @ exn_str e)])"
proof -
  let ?w2 = "w1\<lparr>ticks := Suc (ticks w1)\<rparr>"
  have r: "MeetingNotesAgent_execute lib llama docs w transcript info =
             (Some n, save_to_docs lib docs ?w2 n d)"
    using assms(1,2,3) by (simp add: MeetingNotesAgent_execute_def Let_def as_dict_def)
  have c: "logs (save_to_docs lib docs ?w2 n d) =
             logs w1 @ [(ERROR, lit ''Failed to save to Google Docs: '' @ exn_str e)]"
    if "documents_create docs doc_title = Inl e" for e
    using that save_to_docs_create_fails [of docs n lib e ?w2 d] assms(4)
    by (simp add: log_error_def)
  have u: "logs (save_to_docs lib docs ?w2 n d) =
             logs w1 @ [(ERROR, lit ''Failed to save to Google Docs: '' @ exn_str e)]"
    if "documents_create docs doc_title = Inr doc_id" "doc_content lib n d = Inr content"
       "documents_batchUpdate docs doc_id content = Inl e" for e doc_id content
    using that save_to_docs_batchUpdate_fails [of docs n lib doc_id d content e ?w2] assms(4)
    by simp
  show ?thesis using r c u by simp
qed

theorem notes_returned_when_save_fails_witness:
  "fst (MeetingNotesAgent_execute demo_lib demo_llama docs_down w0
      (lit ''John: Let us review the project timeline'') project_review) =
    Some \<lparr>meeting_id = lit ''meeting123'', note_title = lit ''Project Review'', note_date = T0,
           participants = [lit ''john@company.com'', lit ''sarah@company.com''],
           note_summary = JStr (lit ''Timeline reviewed''),
           action_items = JArr [JStr (lit ''Finish MVP''), JStr (lit ''Backend integration'')],
           key_decisions = JArr []\<rparr>
  \<and> logs (snd (MeetingNotesAgent_execute demo_lib demo_llama docs_down w0
      (lit ''John: Let us review the project timeline'') project_review)) =
     [(ERROR, lit ''Failed to save to Google Docs: HttpError 500'')]"
proof -
  let ?lib = "demo_lib"
  let ?n = "\<lparr>meeting_id = lit ''meeting123'', note_title = lit ''Project Review'', note_date = T0,
           participants = [lit ''john@company.com'', lit ''sarah@company.com''],
           note_summary = JStr (lit ''Timeline reviewed''),
           action_items = JArr [JStr (lit ''Finish MVP''), JStr (lit ''Backend integration'')],
           key_decisions = JArr []\<rparr>"
  have a: "get_llm_response demo_llama w0
             (notes_prompt (get_default (mi_title project_review) (lit ''Unknown Meeting''))
                (lit ''John: Let us review the project timeline''))
             NOTES_SYSTEM_PROMPT = (NOTES_JSON, w0)"
    by (simp add: get_llm_response_def demo_llama_def notes_prompt_def summary_prompt_def lit_def)
  have b: "load_notes ?lib NOTES_JSON = Inr (JObj demo_notes)"
    by (simp add: load_notes_def demo_loads)
  have n: "?n = make_note project_review (local_now ?lib (ticks w0)) demo_notes"
    by (simp add: make_note_def project_review_def demo_notes_def demo_lib_def get_default_def
        dict_get_def lit_def)
  have t: "lit ''Meeting Notes - Project Review - 2024-05-01'' =
             lit ''Meeting Notes - '' @ note_title ?n @ lit '' - ''
               @ strftime ?lib (lit ''%Y-%m-%d'') (note_date ?n)"
    by (simp add: demo_lib_def lit_def)
  have f: "documents_create docs_down (lit ''Meeting Notes - Project Review - 2024-05-01'') =
             Inl (ProviderError (lit ''HttpError 500''))"
    by (simp add: docs_down_def)
  have l: "logs w0 = []" by (simp add: w0_def)
  have e: "lit ''Failed to save to Google Docs: '' @ exn_str (ProviderError (lit ''HttpError 500''))
             = lit ''Failed to save to Google Docs: HttpError 500''"
    by (simp add: lit_def)
  from notes_returned_when_save_fails [OF a b n t, of docs_down] f l e show ?thesis by simp
qed

end
